theory Spec2Isabelle
  imports Complex_Main "HOL-Library.Sublist"
begin

section \<open>Python values\<close>

text \<open>
  A Python \<open>str\<close> is a sequence of Unicode code points, and \<open>len\<close>, \<open>strip\<close>, \<open>in\<close> and the
  regular expressions of the scrapers all work on code points. A text is therefore a list of
  code points; \<open>ascii\<close> turns an ASCII literal into one.
\<close>

type_synonym ustr = "nat list"

definition ascii :: "string \<Rightarrow> ustr" where
  "ascii s = map of_char s"

text \<open>The exceptions that the modelled calls raise. Every call of the browser driver that
  fails raises \<open>WebDriverException\<close> (or a subclass of it).\<close>

datatype exn = ValueError | TypeError | KeyError | JSONDecodeError | OSError | WebDriverException

text \<open>
  \<open>\s\<close> of \<open>re\<close> and \<open>str.strip()\<close> use the same whitespace: U+0009..U+000D, U+001C..U+0020,
  U+0085, U+00A0, U+1680, U+2000..U+200A, U+2028, U+2029, U+202F, U+205F and U+3000.
  \<open>\d\<close> is modelled on the ASCII digits; the decimal digits of other scripts, which \<open>\d\<close>,
  \<open>int\<close> and \<open>float\<close> of Python accept as well, are outside the model.
\<close>

definition is_space :: "nat \<Rightarrow> bool" where
  "is_space c \<longleftrightarrow>
     (9 \<le> c \<and> c \<le> 13) \<or> (28 \<le> c \<and> c \<le> 32) \<or> c = 133 \<or> c = 160 \<or> c = 5760 \<or>
     (8192 \<le> c \<and> c \<le> 8202) \<or> c = 8232 \<or> c = 8233 \<or> c = 8239 \<or> c = 8287 \<or> c = 12288"

definition is_digit :: "nat \<Rightarrow> bool" where
  "is_digit c \<longleftrightarrow> 48 \<le> c \<and> c \<le> 57"

definition py_strip :: "ustr \<Rightarrow> ustr" where
  "py_strip s = rev (dropWhile is_space (rev (dropWhile is_space s)))"

text \<open>\<open>s.replace(a, b)\<close> for one-character \<open>a\<close>: \<open>b\<close> is a text, possibly empty.\<close>

definition py_replace :: "nat \<Rightarrow> ustr \<Rightarrow> ustr \<Rightarrow> ustr" where
  "py_replace a b s = concat (map (\<lambda>c. if c = a then b else [c]) s)"

text \<open>The value of a run of ASCII digits, as \<open>int\<close> reads it.\<close>

definition digits_val :: "ustr \<Rightarrow> nat" where
  "digits_val ds = foldl (\<lambda>a c. 10 * a + (c - 48)) 0 ds"

text \<open>
  \<open>float(s)\<close> on the texts that reach it here, which hold digits, dots and whitespace only
  (\<open>clean_price_text_chars\<close> below): surrounding whitespace is dropped, and what is left must
  be digits with at most one dot and at least one digit, else \<open>ValueError\<close>. The value is
  the exact decimal; Python rounds it to the nearest double, which keeps the order and
  leaves 0, 5, 10 and 1000000 as they are, so every comparison below is the one the program makes.
\<close>

definition py_float :: "ustr \<Rightarrow> exn + rat" where
  "py_float s =
     (let t = py_strip s; ip = takeWhile is_digit t; r = dropWhile is_digit t in
      case r of
        [] \<Rightarrow> if ip = [] then Inl ValueError else Inr (of_nat (digits_val ip))
      | c # fp \<Rightarrow>
          if c = 46 \<and> list_all is_digit fp \<and> \<not> (ip = [] \<and> fp = [])
          then Inr (of_nat (digits_val ip) + of_nat (digits_val fp) / 10 ^ length fp)
          else Inl ValueError)"

section \<open>Price normalizer (wb_selenium_scraper.extract_price_from_text)\<close>

text \<open>
  \<open>re.sub(r'[^\d\s,.]', '', text.strip())\<close> keeps digits, whitespace, commas and dots;
  \<open>replace(' ', '')\<close> removes U+0020 only; \<open>replace(',', '.')\<close> turns commas into dots.
\<close>

definition clean_price_text :: "ustr \<Rightarrow> ustr" where
  "clean_price_text text =
     py_replace 44 [46] (py_replace 32 []
       (filter (\<lambda>c. is_digit c \<or> is_space c \<or> c = 44 \<or> c = 46) (py_strip text)))"

text \<open>The body of the \<open>try\<close>: \<open>Inl\<close> is an exception on its way out.\<close>

definition extract_price_try :: "ustr \<Rightarrow> exn + rat option" where
  "extract_price_try text =
     (if text = [] then Inr None
      else let clean_text = clean_price_text text in
        if clean_text \<noteq> [] then
          (case py_float clean_text of
             Inl e \<Rightarrow> Inl e
           | Inr price \<Rightarrow> if 10 \<le> price \<and> price \<le> 1000000 then Inr (Some price) else Inr None)
        else Inr None)"

text \<open>\<open>except (ValueError, TypeError): pass\<close>, then \<open>return None\<close>.\<close>

definition extract_price_from_text :: "ustr \<Rightarrow> exn + rat option" where
  "extract_price_from_text text =
     (case extract_price_try text of
        Inl e \<Rightarrow> if e = ValueError \<or> e = TypeError then Inr None else Inl e
      | Inr r \<Rightarrow> Inr r)"

section \<open>Product records and the JSON store (save_to_json of both scrapers)\<close>

text \<open>
  An article is a \<open>str\<close> in the scrapers' own records, and may be a number in a store or a
  configuration written by hand; \<open>save_to_json\<close> applies \<open>str\<close> to it for that reason.
\<close>

datatype ident = IdStr ustr | IdInt int

fun digits_of :: "nat \<Rightarrow> ustr" where
  "digits_of n = (if n < 10 then [48 + n] else digits_of (n div 10) @ [48 + n mod 10])"

declare digits_of.simps [simp del]

definition py_str :: "ident \<Rightarrow> ustr" where
  "py_str a = (case a of
       IdStr s \<Rightarrow> s
     | IdInt i \<Rightarrow> if i < 0 then 45 # digits_of (nat (- i)) else digits_of (nat i))"

text \<open>
  The record both scrapers assemble: the dataclass \<open>ProductData\<close> of the Wildberries
  scraper and the dict of the Ozon scraper, which has the same keys but no
  \<open>availability\<close> (\<open>None\<close> here). Prices are exact decimals.
\<close>

record product =
  marketplace :: ustr
  article :: ident
  name :: ustr
  price :: rat
  old_price :: "rat option"
  availability :: "ustr option"
  rating :: "rat option"
  reviews_count :: nat
  url :: ustr
  collected_at :: ustr

text \<open>What a caller hands to \<open>save_to_json\<close>: a dict, or an object with a \<open>__dict__\<close>.\<close>

datatype item = Dict product | Object product















section \<open>The page as the browser driver shows it\<close>

text \<open>
  The scrapers see a page only through the driver: lookups by locator, the text and the
  attributes of an element, its visibility. Every such call can raise, so each answers
  with an exception or a value. The page is taken as it stands once it has loaded and the
  popups are closed: it does not change while the fields are extracted.
\<close>

datatype locator = CSS_SELECTOR string | TAG_NAME string | XPATH ustr

datatype element = Element
  (elem_text: "exn + ustr")
  (is_displayed: "exn + bool")
  (is_enabled: "exn + bool")
  (get_attribute: "string \<Rightarrow> exn + ustr option")
  (find_elements: "locator \<Rightarrow> exn + element list")

record driver =
  title :: "exn + ustr"
  page_elements :: "locator \<Rightarrow> exn + element list"
  document_title :: "exn + ustr"

text \<open>
  \<open>find_element\<close> is the first element \<open>find_elements\<close> gives, and raises when there is
  none; on a page that does not change, waiting for the presence of an element is the
  same lookup, the timeout being the exception.
\<close>

definition find_element :: "(locator \<Rightarrow> exn + element list) \<Rightarrow> locator \<Rightarrow> exn + element" where
  "find_element finder loc =
     (case finder loc of
        Inl e \<Rightarrow> Inl e
      | Inr [] \<Rightarrow> Inl WebDriverException
      | Inr (x # _) \<Rightarrow> Inr x)"

text \<open>Loading the page (starting the driver, \<open>driver.get\<close>, the wait for readiness) can fail.\<close>

datatype page_load = LoadFails | Loaded driver

text \<open>
  The library functions that are not written out: \<open>str.lower\<close>, and \<open>re.sub\<close>,
  \<open>re.findall\<close> and \<open>re.search\<close> on the patterns below (\<open>re_search\<close> and \<open>re_findall\<close>
  give the text of group 1, the only group of each pattern). The results hold for every
  such library. The patterns that only filter characters or look for a run of digits are
  written out where they are used.

  \<^item> \<open>Spaces\<close>: \<open>\s+\<close>
  \<^item> \<open>Price_tail\<close>: \<open>\d{1,3}[ \N]?\d{3}[ \N]?\d{0,3}[ \N]?R.*$\<close>, with N for U+202F and R for the rouble sign U+20BD
  \<^item> \<open>Whole_word w\<close>: \<open>\bw\b\<close>
  \<^item> \<open>Edges\<close>: \<open>^[^a-zA-ZC0-9/]+|[^a-zA-ZC0-9/]+$\<close>, with C for the ranges U+0430..U+044F and
    U+0410..U+042F of the Cyrillic letters
  \<^item> \<open>Title_suffix\<close>: \<open>\s*[D-]\s*Wildberries.*$\<close>, with D for the dash U+2013
  \<^item> \<open>Json_number k\<close>: \<open>"k":\s*["]?(\d+[.]?\d*)["]?\<close>
  \<^item> \<open>Json_integer k\<close>: \<open>"k":\s*(\d+)\<close>
  \<^item> \<open>Url_product\<close>: \<open>/product/[^/]*?(\d+)/\<close>; \<open>Url_dashes\<close>: \<open>--(\d+)/?$\<close>; \<open>Url_last\<close>: \<open>/(\d+)/?$\<close>
  \<^item> \<open>Price_then_rouble\<close>: \<open>(\d{1,3}[ \N]?\d{3}[ \N]?\d{0,3})[ \N]?R?\<close>;
    \<open>Rouble_then_price\<close>: \<open>R[ \N]*(\d{1,3}[ \N]?\d{3}[ \N]?\d{0,3})\<close>
\<close>

datatype pattern =
    Spaces | Price_tail | Whole_word ustr | Edges | Title_suffix
  | Json_number string | Json_integer string
  | Url_product | Url_dashes | Url_last
  | Price_then_rouble | Rouble_then_price

record pylib =
  lower :: "ustr \<Rightarrow> ustr"
  re_sub :: "pattern \<Rightarrow> ustr \<Rightarrow> bool \<Rightarrow> ustr \<Rightarrow> ustr"
  re_findall :: "pattern \<Rightarrow> ustr \<Rightarrow> ustr list"
  re_search :: "pattern \<Rightarrow> ustr \<Rightarrow> ustr option"

text \<open>\<open>re.search(r'(\d+)', s)\<close>: the first run of digits.\<close>

definition search_digits :: "ustr \<Rightarrow> ustr option" where
  "search_digits s =
     (let ds = takeWhile is_digit (dropWhile (\<lambda>c. \<not> is_digit c) s)
      in if ds = [] then None else Some ds)"

text \<open>
  \<open>re.search(r'(\d+[.,]\d+)', s)\<close>: at the leftmost position where a run of digits is
  followed by a dot or a comma and a digit, that run, the mark and the digits after it.
\<close>

fun search_decimal :: "ustr \<Rightarrow> ustr option" where
  "search_decimal [] = None"
| "search_decimal (c # cs) =
     (let ip = takeWhile is_digit (c # cs); r = dropWhile is_digit (c # cs) in
      case r of
        [] \<Rightarrow> search_decimal cs
      | m # fr \<Rightarrow>
          if ip \<noteq> [] \<and> (m = 46 \<or> m = 44) \<and> takeWhile is_digit fr \<noteq> []
          then Some (ip @ [m] @ takeWhile is_digit fr)
          else search_decimal cs)"

text \<open>Evaluating a list literal whose entries are calls: the first call that raises ends it.\<close>

fun collect :: "(exn + 'a) list \<Rightarrow> exn + 'a list" where
  "collect [] = Inr []"
| "collect (Inl e # rest) = Inl e"
| "collect (Inr x # rest) = (case collect rest of Inl e \<Rightarrow> Inl e | Inr xs \<Rightarrow> Inr (x # xs))"

section \<open>Wildberries scraper (wb_selenium_scraper.py)\<close>

subsection \<open>clean_product_name\<close>

definition unknown_product :: ustr where
  "unknown_product =
     [1053, 1077, 1080, 1079, 1074, 1077, 1089, 1090, 1085, 1099, 1081] @ ascii '' '' @
     [1090, 1086, 1074, 1072, 1088]"

definition words_to_remove :: "ustr list" where
  "words_to_remove =
     [[1082, 1091, 1087, 1080, 1090, 1100],
      [1094, 1077, 1085, 1072],
      [1076, 1086, 1089, 1090, 1072, 1074, 1082, 1072],
      [1074] @ ascii '' '' @ [1082, 1086, 1088, 1079, 1080, 1085, 1091],
      [8381],
      [1088, 1091, 1073]]"

definition clean_product_name :: "pylib \<Rightarrow> ustr \<Rightarrow> ustr" where
  "clean_product_name lib nm =
     (if nm = [] then unknown_product
      else
        let n1 = py_strip (re_sub lib Spaces (ascii '' '') False nm);
            n2 = re_sub lib Price_tail [] False n1;
            n3 = foldl (\<lambda>n word. re_sub lib (Whole_word word) [] True n) n2 words_to_remove;
            n4 = re_sub lib Edges [] False n3
        in py_strip n4)"

subsection \<open>is_blocked\<close>

definition block_indicators :: "ustr list" where
  "block_indicators =
     [[1074, 1082, 1083, 1102, 1095, 1080, 1090, 1077] @ ascii '' javascript'',
      [1074, 1099] @ ascii '' '' @ [1085, 1077] @ ascii '' '' @ [1088, 1086, 1073, 1086, 1090],
      ascii ''checking your browser'',
      ascii ''please wait'',
      [1076, 1086, 1089, 1090, 1091, 1087] @ ascii '' '' @
        [1086, 1075, 1088, 1072, 1085, 1080, 1095, 1077, 1085],
      ascii ''captcha'',
      [1082, 1072, 1087, 1095, 1072],
      [1076, 1086, 1089, 1090, 1091, 1087] @ ascii '' '' @ [1082] @ ascii '' '' @
        [1089, 1072, 1081, 1090, 1091] @ ascii '' '' @ [1079, 1072, 1082, 1088, 1099, 1090],
      ascii ''blocked'',
      ascii ''security check'']"

text \<open>The loop over the indicators: \<open>True\<close> at the first one found in the body or the title.\<close>

fun indicator_loop :: "ustr \<Rightarrow> ustr \<Rightarrow> ustr list \<Rightarrow> bool" where
  "indicator_loop body_text page_title [] = False"
| "indicator_loop body_text page_title (indicator # rest) =
     (if sublist indicator body_text \<or> sublist indicator page_title then True
      else indicator_loop body_text page_title rest)"

text \<open>The body of the \<open>try\<close> of \<open>is_blocked\<close>, and the bare \<open>except\<close> around it.\<close>

definition is_blocked_try :: "pylib \<Rightarrow> driver \<Rightarrow> exn + bool" where
  "is_blocked_try lib drv =
     (case title drv of
        Inl e \<Rightarrow> Inl e
      | Inr t \<Rightarrow>
          let page_title = lower lib t in
          (case find_element (page_elements drv) (TAG_NAME ''body'') of
             Inl e \<Rightarrow> Inl e
           | Inr body \<Rightarrow>
               (case elem_text body of
                  Inl e \<Rightarrow> Inl e
                | Inr bt \<Rightarrow>
                    let body_text = lower lib bt in
                    Inr (indicator_loop body_text page_title block_indicators))))"

definition is_blocked :: "pylib \<Rightarrow> driver \<Rightarrow> bool" where
  "is_blocked lib drv = (case is_blocked_try lib drv of Inl e \<Rightarrow> False | Inr b \<Rightarrow> b)"

subsection \<open>extract_product_name\<close>

definition name_selectors :: "string list" where
  "name_selectors =
     [''h1.product-page__title'', ''h1[data-link*='goods_name']'', ''.product-page__header h1'',
      ''h1.product-card__name'', ''.product-page__title-wrap h1'', ''h1.product__name'',
      ''#productNmId'', ''.product-page__info h1'', ''h1[itemprop='name']'', ''.product-title'',
      ''.goods-name'', ''h1'']"

fun name_from_selectors :: "pylib \<Rightarrow> driver \<Rightarrow> string list \<Rightarrow> ustr option" where
  "name_from_selectors lib drv [] = None"
| "name_from_selectors lib drv (selector # rest) =
     (case find_element (page_elements drv) (CSS_SELECTOR selector) of
        Inl e \<Rightarrow> name_from_selectors lib drv rest
      | Inr el \<Rightarrow>
          (case elem_text el of
             Inl e \<Rightarrow> name_from_selectors lib drv rest
           | Inr t \<Rightarrow>
               let nm = py_strip t in
               if nm \<noteq> [] \<and> length nm > 3 then Some (clean_product_name lib nm)
               else name_from_selectors lib drv rest))"

definition name_from_title :: "pylib \<Rightarrow> driver \<Rightarrow> ustr option" where
  "name_from_title lib drv =
     (case document_title drv of
        Inl e \<Rightarrow> None
      | Inr meta_title \<Rightarrow>
          if meta_title \<noteq> [] \<and> length meta_title > 10 then
            let clean_title = re_sub lib Title_suffix [] False meta_title in
            if length clean_title > 10 then Some (clean_product_name lib clean_title) else None
          else None)"

definition wb_extract_product_name :: "pylib \<Rightarrow> driver \<Rightarrow> ustr option" where
  "wb_extract_product_name lib drv =
     (case name_from_selectors lib drv name_selectors of
        Some nm \<Rightarrow> Some nm
      | None \<Rightarrow> name_from_title lib drv)"

subsection \<open>extract_product_price, extract_price_from_scripts, extract_old_price\<close>

definition price_selectors :: "string list" where
  "price_selectors =
     [''ins.price-block__final-price'', ''.price-block__final-price'', ''.final-price'',
      ''.lower-price'', ''.j-final-price'', ''[class*='price__lower']'', ''.price-block__price'',
      ''.price-block__final-price-wrapper'', ''.product-card__price'']"

definition old_price_selectors :: "string list" where
  "old_price_selectors =
     [''del.price-block__old-price'', ''.price-block__old-price'', ''.old-price'',
      ''s.price-block__old-price'', ''.price-block__old-price-wrap'', ''[class*='old-price']'']"

text \<open>
  The loop over the elements of one selector: the stripped text of each goes to
  \<open>extract_price_from_text\<close>, and the first price that is true (not \<open>None\<close>, not zero) is
  returned. An exception leaves the loop, to the \<open>except: continue\<close> of the selector.
\<close>

fun price_from_elements :: "element list \<Rightarrow> exn + rat option" where
  "price_from_elements [] = Inr None"
| "price_from_elements (el # rest) =
     (case elem_text el of
        Inl e \<Rightarrow> Inl e
      | Inr t \<Rightarrow>
          (case extract_price_from_text (py_strip t) of
             Inl e \<Rightarrow> Inl e
           | Inr None \<Rightarrow> price_from_elements rest
           | Inr (Some p) \<Rightarrow> if p \<noteq> 0 then Inr (Some p) else price_from_elements rest))"

fun price_from_selectors :: "driver \<Rightarrow> string list \<Rightarrow> rat option" where
  "price_from_selectors drv [] = None"
| "price_from_selectors drv (selector # rest) =
     (case page_elements drv (CSS_SELECTOR selector) of
        Inl e \<Rightarrow> price_from_selectors drv rest
      | Inr els \<Rightarrow>
          (case price_from_elements els of
             Inr (Some p) \<Rightarrow> Some p
           | _ \<Rightarrow> price_from_selectors drv rest))"

text \<open>The elements whose text contains the rouble sign; an empty text is replaced by the
  parent's.\<close>

definition rouble_xpath :: ustr where
  "rouble_xpath = ascii ''//*[contains(text(), '' @ [39, 8381, 39] @ ascii '')]''"

fun price_from_rouble_elements :: "element list \<Rightarrow> exn + rat option" where
  "price_from_rouble_elements [] = Inr None"
| "price_from_rouble_elements (el # rest) =
     (case elem_text el of
        Inl e \<Rightarrow> Inl e
      | Inr t \<Rightarrow>
          (case (if t = [] then
                   (case find_element (find_elements el) (XPATH (ascii ''..'')) of
                      Inl e \<Rightarrow> Inl e
                    | Inr parent \<Rightarrow> elem_text parent)
                 else Inr t) of
             Inl e \<Rightarrow> Inl e
           | Inr parent_text \<Rightarrow>
               (case extract_price_from_text parent_text of
                  Inl e \<Rightarrow> Inl e
                | Inr None \<Rightarrow> price_from_rouble_elements rest
                | Inr (Some p) \<Rightarrow>
                    if p \<noteq> 0 then Inr (Some p) else price_from_rouble_elements rest)))"

definition price_from_rouble :: "driver \<Rightarrow> rat option" where
  "price_from_rouble drv =
     (case page_elements drv (XPATH rouble_xpath) of
        Inl e \<Rightarrow> None
      | Inr els \<Rightarrow> (case price_from_rouble_elements els of Inr (Some p) \<Rightarrow> Some p | _ \<Rightarrow> None))"

text \<open>
  The prices in the scripts of the page. \<open>'PriceU' in pattern\<close> holds for the patterns of
  the keys \<open>salePriceU\<close> and \<open>priceU\<close>, whose values are in kopecks.
\<close>

definition script_patterns :: "pattern list" where
  "script_patterns =
     [Json_number ''price'', Json_number ''finalPrice'', Json_integer ''salePriceU'',
      Json_integer ''priceU'', Json_number ''currentPrice'']"

fun pattern_key :: "pattern \<Rightarrow> string" where
  "pattern_key (Json_number k) = k"
| "pattern_key (Json_integer k) = k"
| "pattern_key _ = []"

fun price_from_matches :: "pattern \<Rightarrow> ustr list \<Rightarrow> exn + rat option" where
  "price_from_matches pat [] = Inr None"
| "price_from_matches pat (m # rest) =
     (case py_float m of
        Inl e \<Rightarrow> if e = ValueError \<or> e = TypeError then price_from_matches pat rest else Inl e
      | Inr v \<Rightarrow>
          let price_val = (if sublist ''PriceU'' (pattern_key pat) then v / 100 else v) in
          if 10 \<le> price_val \<and> price_val \<le> 1000000 then Inr (Some price_val)
          else price_from_matches pat rest)"

fun price_from_patterns :: "pylib \<Rightarrow> ustr \<Rightarrow> pattern list \<Rightarrow> exn + rat option" where
  "price_from_patterns lib script_content [] = Inr None"
| "price_from_patterns lib script_content (pat # rest) =
     (case price_from_matches pat (re_findall lib pat script_content) of
        Inl e \<Rightarrow> Inl e
      | Inr (Some p) \<Rightarrow> Inr (Some p)
      | Inr None \<Rightarrow> price_from_patterns lib script_content rest)"

definition mentions_article :: "ident \<Rightarrow> ustr \<Rightarrow> bool" where
  "mentions_article art script_content \<longleftrightarrow>
     sublist ([34] @ py_str art @ [34]) script_content \<or>
     sublist ([39] @ py_str art @ [39]) script_content \<or>
     sublist (ascii ''nm:'' @ py_str art) script_content"

fun price_from_scripts :: "pylib \<Rightarrow> ident \<Rightarrow> element list \<Rightarrow> exn + rat option" where
  "price_from_scripts lib art [] = Inr None"
| "price_from_scripts lib art (script # rest) =
     (case get_attribute script ''innerHTML'' of
        Inl e \<Rightarrow> Inl e
      | Inr inner \<Rightarrow>
          let script_content = (case inner of None \<Rightarrow> [] | Some s \<Rightarrow> s) in
          if mentions_article art script_content then
            (case price_from_patterns lib script_content script_patterns of
               Inl e \<Rightarrow> Inl e
             | Inr (Some p) \<Rightarrow> Inr (Some p)
             | Inr None \<Rightarrow> price_from_scripts lib art rest)
          else price_from_scripts lib art rest)"

definition extract_price_from_scripts :: "pylib \<Rightarrow> driver \<Rightarrow> ident \<Rightarrow> rat option" where
  "extract_price_from_scripts lib drv art =
     (case page_elements drv (TAG_NAME ''script'') of
        Inl e \<Rightarrow> None
      | Inr scripts \<Rightarrow>
          (case price_from_scripts lib art scripts of Inr (Some p) \<Rightarrow> Some p | _ \<Rightarrow> None))"

definition extract_product_price :: "pylib \<Rightarrow> driver \<Rightarrow> ident \<Rightarrow> rat option" where
  "extract_product_price lib drv art =
     (case price_from_selectors drv price_selectors of
        Some p \<Rightarrow> Some p
      | None \<Rightarrow>
          (case price_from_rouble drv of
             Some p \<Rightarrow> Some p
           | None \<Rightarrow>
               (case extract_price_from_scripts lib drv art of
                  Some p \<Rightarrow> if p \<noteq> 0 then Some p else None
                | None \<Rightarrow> None)))"

definition wb_extract_old_price :: "driver \<Rightarrow> rat option" where
  "wb_extract_old_price drv = price_from_selectors drv old_price_selectors"

subsection \<open>extract_availability\<close>

definition out_of_stock :: ustr where
  "out_of_stock = [1053, 1077, 1090] @ ascii '' '' @ [1074] @ ascii '' '' @
     [1085, 1072, 1083, 1080, 1095, 1080, 1080]"

definition in_stock :: ustr where
  "in_stock = [1042] @ ascii '' '' @ [1085, 1072, 1083, 1080, 1095, 1080, 1080]"

definition unknown_stock :: ustr where
  "unknown_stock = [1053, 1077, 1080, 1079, 1074, 1077, 1089, 1090, 1085, 1086]"

definition out_of_stock_selectors :: "string list" where
  "out_of_stock_selectors =
     [''.product-page__not-available'', ''.out-of-stock'', ''.not-available'', ''.unavailable'',
      ''[class*='outOfStock']'', ''[class*='notAvailable']'', ''.sold-out'', ''.item-unavailable'']"

definition in_stock_selectors :: "string list" where
  "in_stock_selectors =
     [''.product-page__order-btn'', ''.order-btn'', ''[class*='add-to-cart']'',
      ''.j-add-to-basket'', ''.buy-btn'']"

text \<open>The first loop: does some selector's first element say it is displayed?\<close>

fun out_of_stock_loop :: "driver \<Rightarrow> string list \<Rightarrow> bool" where
  "out_of_stock_loop drv [] = False"
| "out_of_stock_loop drv (selector # rest) =
     (case find_element (page_elements drv) (CSS_SELECTOR selector) of
        Inl e \<Rightarrow> out_of_stock_loop drv rest
      | Inr el \<Rightarrow>
          (case is_displayed el of
             Inl e \<Rightarrow> out_of_stock_loop drv rest
           | Inr shown \<Rightarrow> if shown then True else out_of_stock_loop drv rest))"

text \<open>The second loop: \<open>is_displayed() and is_enabled()\<close>, the second call only after a true first.\<close>

fun in_stock_loop :: "driver \<Rightarrow> string list \<Rightarrow> bool" where
  "in_stock_loop drv [] = False"
| "in_stock_loop drv (selector # rest) =
     (case find_element (page_elements drv) (CSS_SELECTOR selector) of
        Inl e \<Rightarrow> in_stock_loop drv rest
      | Inr el \<Rightarrow>
          (case is_displayed el of
             Inl e \<Rightarrow> in_stock_loop drv rest
           | Inr shown \<Rightarrow>
               if shown then
                 (case is_enabled el of
                    Inl e \<Rightarrow> in_stock_loop drv rest
                  | Inr enabled \<Rightarrow> if enabled then True else in_stock_loop drv rest)
               else in_stock_loop drv rest))"

definition extract_availability :: "driver \<Rightarrow> rat \<Rightarrow> ustr" where
  "extract_availability drv price_val =
     (if out_of_stock_loop drv out_of_stock_selectors then out_of_stock
      else if in_stock_loop drv in_stock_selectors then in_stock
      else if price_val = 0 then unknown_stock
      else in_stock)"

subsection \<open>extract_rating, extract_reviews_count\<close>

definition rating_selectors :: "string list" where
  "rating_selectors =
     [''.product-page__rating .rating'', ''.product-rating'', ''[class*='rating']'',
      ''.rating-stars'', ''.stars'', ''[itemprop='ratingValue']'', ''.product-rating__value'']"

definition rating_sources :: "element \<Rightarrow> exn + ustr option list" where
  "rating_sources el =
     collect
       [(case elem_text el of Inl e \<Rightarrow> Inl e | Inr t \<Rightarrow> Inr (Some (py_strip t))),
        get_attribute el ''data-rate'',
        get_attribute el ''data-rating'',
        get_attribute el ''content'',
        get_attribute el ''value'']"

text \<open>The loop over the sources: a candidate outside 0..5 is passed over.\<close>

fun rating_from_sources :: "ustr option list \<Rightarrow> exn + rat option" where
  "rating_from_sources [] = Inr None"
| "rating_from_sources (None # rest) = rating_from_sources rest"
| "rating_from_sources (Some s # rest) =
     (if s = [] then rating_from_sources rest
      else
        (case search_decimal s of
           None \<Rightarrow> rating_from_sources rest
         | Some m \<Rightarrow>
             (case py_float (py_replace 44 [46] m) of
                Inl e \<Rightarrow> Inl e
              | Inr r \<Rightarrow>
                  if 0 \<le> r \<and> r \<le> 5 then Inr (Some r) else rating_from_sources rest)))"

fun wb_rating_loop :: "driver \<Rightarrow> string list \<Rightarrow> rat option" where
  "wb_rating_loop drv [] = None"
| "wb_rating_loop drv (selector # rest) =
     (case find_element (page_elements drv) (CSS_SELECTOR selector) of
        Inl e \<Rightarrow> wb_rating_loop drv rest
      | Inr el \<Rightarrow>
          (case rating_sources el of
             Inl e \<Rightarrow> wb_rating_loop drv rest
           | Inr sources \<Rightarrow>
               (case rating_from_sources sources of
                  Inr (Some r) \<Rightarrow> Some r
                | _ \<Rightarrow> wb_rating_loop drv rest)))"

definition wb_extract_rating :: "driver \<Rightarrow> rat option" where
  "wb_extract_rating drv = wb_rating_loop drv rating_selectors"

definition reviews_selectors :: "string list" where
  "reviews_selectors =
     [''.product-page__comments-count'', ''.comments-count'', ''.review-count'',
      ''[class*='review-count']'', ''[class*='comments-count']'', ''[class*='feedbacks-count']'',
      ''.product-rating__count'', ''[data-link*='feedbacks']'']"

text \<open>The spaces U+0020 are taken out of the text before the digits are looked for.\<close>

fun wb_reviews_loop :: "driver \<Rightarrow> string list \<Rightarrow> nat" where
  "wb_reviews_loop drv [] = 0"
| "wb_reviews_loop drv (selector # rest) =
     (case find_element (page_elements drv) (CSS_SELECTOR selector) of
        Inl e \<Rightarrow> wb_reviews_loop drv rest
      | Inr el \<Rightarrow>
          (case elem_text el of
             Inl e \<Rightarrow> wb_reviews_loop drv rest
           | Inr t \<Rightarrow>
               (case search_digits (py_replace 32 [] (py_strip t)) of
                  None \<Rightarrow> wb_reviews_loop drv rest
                | Some m \<Rightarrow> digits_val m)))"

definition wb_extract_reviews_count :: "driver \<Rightarrow> nat" where
  "wb_extract_reviews_count drv = wb_reviews_loop drv reviews_selectors"

subsection \<open>collect_product_data\<close>

text \<open>
  \<open>now\<close> is the timestamp \<open>datetime.now().isoformat()\<close>. Whatever raises before the page
  is there ends in the outer handler, which returns \<open>None\<close>; nothing after that raises.
\<close>

definition collect_product_data :: "pylib \<Rightarrow> ustr \<Rightarrow> page_load \<Rightarrow> ident \<Rightarrow> product option" where
  "collect_product_data lib now session art =
     (case session of
        LoadFails \<Rightarrow> None
      | Loaded drv \<Rightarrow>
          if is_blocked lib drv then None
          else
            (case wb_extract_product_name lib drv of
               None \<Rightarrow> None
             | Some nm \<Rightarrow>
                 if nm = [] then None
                 else
                   (case extract_product_price lib drv art of
                      None \<Rightarrow> None
                    | Some p \<Rightarrow>
                        if p = 0 then None
                        else
                          Some \<lparr>marketplace = ascii ''Wildberries'',
                                article = art,
                                name = nm,
                                price = p,
                                old_price = wb_extract_old_price drv,
                                availability = Some (extract_availability drv p),
                                rating = wb_extract_rating drv,
                                reviews_count = wb_extract_reviews_count drv,
                                url = ascii ''https://www.wildberries.ru/catalog/'' @ py_str art @
                                      ascii ''/detail.aspx'',
                                collected_at = now\<rparr>)))"

section \<open>Ozon scraper (ozon_selenium_scraper.py)\<close>

text \<open>Here the functions work on one product tile of the search page, an element.\<close>

subsection \<open>The link and the article\<close>

definition link_selectors :: "string list" where
  "link_selectors = [''a[href*='/product/']'', ''a[class*='tile-link']'', ''a[class*='card-link']'']"

text \<open>The loop keeps the last \<open>href\<close> it read in \<open>product_url\<close> and stops at the first true one.\<close>

fun link_loop :: "element \<Rightarrow> ustr option \<Rightarrow> string list \<Rightarrow> ustr option" where
  "link_loop tile product_url [] = product_url"
| "link_loop tile product_url (selector # rest) =
     (case find_element (find_elements tile) (CSS_SELECTOR selector) of
        Inl e \<Rightarrow> link_loop tile product_url rest
      | Inr link_element \<Rightarrow>
          (case get_attribute link_element ''href'' of
             Inl e \<Rightarrow> link_loop tile product_url rest
           | Inr href \<Rightarrow>
               if href \<noteq> None \<and> href \<noteq> Some [] then href else link_loop tile href rest))"

definition url_patterns :: "pattern list" where
  "url_patterns = [Url_product, Url_dashes, Url_last]"

fun article_from_patterns :: "pylib \<Rightarrow> ustr \<Rightarrow> pattern list \<Rightarrow> ustr" where
  "article_from_patterns lib u [] = []"
| "article_from_patterns lib u (pat # rest) =
     (case re_search lib pat u of
        Some g \<Rightarrow> g
      | None \<Rightarrow> article_from_patterns lib u rest)"

definition extract_article_from_url :: "pylib \<Rightarrow> ustr \<Rightarrow> ustr" where
  "extract_article_from_url lib u = article_from_patterns lib u url_patterns"

subsection \<open>extract_accurate_price\<close>

definition ozon_price_selectors :: "string list" where
  "ozon_price_selectors =
     [''span[class*='price']'', ''div[class*='price']'', ''span[class*='tsHeadline']'',
      ''div[class*='tsHeadline']'', ''span[class*='cost']'', ''div[class*='cost']'',
      ''.c311-a1'', ''.a0c1'', ''.a1v9'', ''[data-widget*='price']'']"

text \<open>\<open>re.sub(r'[^\d\s]', '', t)\<close>, then \<open>re.sub(r'\s+', '', t)\<close>: the digits of the text.\<close>

definition digits_and_spaces :: "ustr \<Rightarrow> ustr" where
  "digits_and_spaces t = filter (\<lambda>c. is_digit c \<or> is_space c) t"

definition without_spaces :: "ustr \<Rightarrow> ustr" where
  "without_spaces t = filter (\<lambda>c. \<not> is_space c) t"

fun ozon_price_from_elements :: "element list \<Rightarrow> exn + nat option" where
  "ozon_price_from_elements [] = Inr None"
| "ozon_price_from_elements (el # rest) =
     (case elem_text el of
        Inl e \<Rightarrow> Inl e
      | Inr t \<Rightarrow>
          let price_text = py_strip t in
          if price_text \<noteq> [] then
            let clean_text = without_spaces (digits_and_spaces price_text) in
            if clean_text \<noteq> [] \<and> length clean_text \<ge> 3 then
              let p = digits_val clean_text in
              if 1000 \<le> p \<and> p \<le> 100000 then Inr (Some p) else ozon_price_from_elements rest
            else ozon_price_from_elements rest
          else ozon_price_from_elements rest)"

fun ozon_price_from_selectors :: "element \<Rightarrow> string list \<Rightarrow> nat option" where
  "ozon_price_from_selectors tile [] = None"
| "ozon_price_from_selectors tile (selector # rest) =
     (case find_elements tile (CSS_SELECTOR selector) of
        Inl e \<Rightarrow> ozon_price_from_selectors tile rest
      | Inr els \<Rightarrow>
          (case ozon_price_from_elements els of
             Inr (Some p) \<Rightarrow> Some p
           | _ \<Rightarrow> ozon_price_from_selectors tile rest))"

definition ozon_price_patterns :: "pattern list" where
  "ozon_price_patterns = [Price_then_rouble, Rouble_then_price]"

text \<open>\<open>re.sub(r'[^\d]', '', str(match))\<close> keeps the digits of a match.\<close>

fun ozon_price_from_matches :: "ustr list \<Rightarrow> nat option" where
  "ozon_price_from_matches [] = None"
| "ozon_price_from_matches (m # rest) =
     (let clean_price = filter is_digit m in
      if clean_price \<noteq> [] then
        let p = digits_val clean_price in
        if 1000 \<le> p \<and> p \<le> 100000 then Some p else ozon_price_from_matches rest
      else ozon_price_from_matches rest)"

fun ozon_price_from_patterns :: "pylib \<Rightarrow> ustr \<Rightarrow> pattern list \<Rightarrow> nat option" where
  "ozon_price_from_patterns lib element_text [] = None"
| "ozon_price_from_patterns lib element_text (pat # rest) =
     (case ozon_price_from_matches (re_findall lib pat element_text) of
        Some p \<Rightarrow> Some p
      | None \<Rightarrow> ozon_price_from_patterns lib element_text rest)"

definition extract_accurate_price :: "pylib \<Rightarrow> element \<Rightarrow> nat option" where
  "extract_accurate_price lib tile =
     (case ozon_price_from_selectors tile ozon_price_selectors of
        Some p \<Rightarrow> Some p
      | None \<Rightarrow>
          (case elem_text tile of
             Inl e \<Rightarrow> None
           | Inr element_text \<Rightarrow> ozon_price_from_patterns lib element_text ozon_price_patterns))"

subsection \<open>extract_product_name\<close>

definition title_selectors :: "string list" where
  "title_selectors =
     [''span[class*='tsBody']'', ''a[class*='title']'', ''span[class*='title']'',
      ''div[class*='title']'', ''h3'', ''h4'', ''.a5-a'', ''[class*='tile-title']'']"

fun title_from_elements :: "element list \<Rightarrow> exn + ustr option" where
  "title_from_elements [] = Inr None"
| "title_from_elements (el # rest) =
     (case elem_text el of
        Inl e \<Rightarrow> Inl e
      | Inr t \<Rightarrow>
          let title_text = py_strip t in
          if title_text \<noteq> [] \<and> length title_text > 10 then Inr (Some title_text)
          else title_from_elements rest)"

fun title_from_selectors :: "element \<Rightarrow> string list \<Rightarrow> ustr option" where
  "title_from_selectors tile [] = None"
| "title_from_selectors tile (selector # rest) =
     (case find_elements tile (CSS_SELECTOR selector) of
        Inl e \<Rightarrow> title_from_selectors tile rest
      | Inr els \<Rightarrow>
          (case title_from_elements els of
             Inr (Some t) \<Rightarrow> Some t
           | _ \<Rightarrow> title_from_selectors tile rest))"

text \<open>The fallback is the first line of the tile's text, \<open>element.text.split('\n')[0]\<close>.\<close>

definition ozon_extract_product_name :: "element \<Rightarrow> ustr option" where
  "ozon_extract_product_name tile =
     (case title_from_selectors tile title_selectors of
        Some t \<Rightarrow> Some t
      | None \<Rightarrow>
          (case elem_text tile of
             Inl e \<Rightarrow> None
           | Inr t \<Rightarrow>
               let line = takeWhile (\<lambda>c. c \<noteq> 10) t in
               if line \<noteq> [] \<and> length line > 10 then Some line else None))"

subsection \<open>extract_rating, extract_reviews_count, extract_old_price\<close>

definition ozon_rating_selectors :: "string list" where
  "ozon_rating_selectors = [''span[class*='rating']'', ''div[class*='rating']'', ''[class*='star-rate']'']"

text \<open>The first decimal found in the text of an element is the rating, whatever its value.\<close>

fun ozon_rating_from_elements :: "element list \<Rightarrow> exn + rat option" where
  "ozon_rating_from_elements [] = Inr None"
| "ozon_rating_from_elements (el # rest) =
     (case elem_text el of
        Inl e \<Rightarrow> Inl e
      | Inr t \<Rightarrow>
          let rating_text = py_strip t in
          if rating_text \<noteq> [] then
            (case search_decimal rating_text of
               None \<Rightarrow> ozon_rating_from_elements rest
             | Some m \<Rightarrow>
                 (case py_float (py_replace 44 [46] m) of
                    Inl e \<Rightarrow> Inl e
                  | Inr r \<Rightarrow> Inr (Some r)))
          else ozon_rating_from_elements rest)"

fun ozon_rating_loop :: "element \<Rightarrow> string list \<Rightarrow> rat option" where
  "ozon_rating_loop tile [] = None"
| "ozon_rating_loop tile (selector # rest) =
     (case find_elements tile (CSS_SELECTOR selector) of
        Inl e \<Rightarrow> ozon_rating_loop tile rest
      | Inr els \<Rightarrow>
          (case ozon_rating_from_elements els of
             Inr (Some r) \<Rightarrow> Some r
           | _ \<Rightarrow> ozon_rating_loop tile rest))"

definition ozon_extract_rating :: "element \<Rightarrow> rat option" where
  "ozon_extract_rating tile = ozon_rating_loop tile ozon_rating_selectors"

definition ozon_reviews_selectors :: "string list" where
  "ozon_reviews_selectors = [''span[class*='review']'', ''div[class*='review']'', ''[class*='review-count']'']"

text \<open>The digits are looked for in the stripped text as it is: no space is taken out.\<close>

fun ozon_reviews_from_elements :: "element list \<Rightarrow> exn + nat option" where
  "ozon_reviews_from_elements [] = Inr None"
| "ozon_reviews_from_elements (el # rest) =
     (case elem_text el of
        Inl e \<Rightarrow> Inl e
      | Inr t \<Rightarrow>
          let reviews_text = py_strip t in
          if reviews_text \<noteq> [] then
            (case search_digits reviews_text of
               None \<Rightarrow> ozon_reviews_from_elements rest
             | Some m \<Rightarrow> Inr (Some (digits_val m)))
          else ozon_reviews_from_elements rest)"

fun ozon_reviews_loop :: "element \<Rightarrow> string list \<Rightarrow> nat" where
  "ozon_reviews_loop tile [] = 0"
| "ozon_reviews_loop tile (selector # rest) =
     (case find_elements tile (CSS_SELECTOR selector) of
        Inl e \<Rightarrow> ozon_reviews_loop tile rest
      | Inr els \<Rightarrow>
          (case ozon_reviews_from_elements els of
             Inr (Some n) \<Rightarrow> n
           | _ \<Rightarrow> ozon_reviews_loop tile rest))"

definition ozon_extract_reviews_count :: "element \<Rightarrow> nat" where
  "ozon_extract_reviews_count tile = ozon_reviews_loop tile ozon_reviews_selectors"

definition ozon_old_price_selectors :: "string list" where
  "ozon_old_price_selectors = [''span[class*='old-price']'', ''div[class*='old-price']'', ''s[class*='price']'']"

fun ozon_old_price_from_elements :: "element list \<Rightarrow> exn + nat option" where
  "ozon_old_price_from_elements [] = Inr None"
| "ozon_old_price_from_elements (el # rest) =
     (case elem_text el of
        Inl e \<Rightarrow> Inl e
      | Inr t \<Rightarrow>
          let old_text = py_strip t in
          if old_text \<noteq> [] then
            let clean_text = without_spaces (digits_and_spaces old_text) in
            if clean_text \<noteq> [] \<and> length clean_text \<ge> 3 then
              let p = digits_val clean_text in
              if p > 1000 then Inr (Some p) else ozon_old_price_from_elements rest
            else ozon_old_price_from_elements rest
          else ozon_old_price_from_elements rest)"

fun ozon_old_price_loop :: "element \<Rightarrow> string list \<Rightarrow> nat option" where
  "ozon_old_price_loop tile [] = None"
| "ozon_old_price_loop tile (selector # rest) =
     (case find_elements tile (CSS_SELECTOR selector) of
        Inl e \<Rightarrow> ozon_old_price_loop tile rest
      | Inr els \<Rightarrow>
          (case ozon_old_price_from_elements els of
             Inr (Some p) \<Rightarrow> Some p
           | _ \<Rightarrow> ozon_old_price_loop tile rest))"

definition ozon_extract_old_price :: "element \<Rightarrow> nat option" where
  "ozon_extract_old_price tile = ozon_old_price_loop tile ozon_old_price_selectors"

subsection \<open>extract_product_info_immediately\<close>

text \<open>
  The assembler of one tile. Each step that finds nothing returns \<open>None\<close> for the tile; the
  extractors it calls catch their own exceptions. The driver it is also given is not used.
\<close>

definition extract_product_info_immediately :: "pylib \<Rightarrow> ustr \<Rightarrow> element \<Rightarrow> product option" where
  "extract_product_info_immediately lib now tile =
     (case link_loop tile None link_selectors of
        None \<Rightarrow> None
      | Some product_url \<Rightarrow>
          if product_url = [] then None
          else
            let art = extract_article_from_url lib product_url in
            if art = [] then None
            else
              (case ozon_extract_product_name tile of
                 None \<Rightarrow> None
               | Some nm \<Rightarrow>
                   if nm = [] then None
                   else
                     (case extract_accurate_price lib tile of
                        None \<Rightarrow> None
                      | Some p \<Rightarrow>
                          if p = 0 \<or> p < 1000 then None
                          else
                            Some \<lparr>marketplace = ascii ''Ozon'',
                                  article = IdStr art,
                                  name = nm,
                                  price = of_nat p,
                                  old_price = map_option of_nat (ozon_extract_old_price tile),
                                  availability = None,
                                  rating = ozon_extract_rating tile,
                                  reviews_count = ozon_extract_reviews_count tile,
                                  url = product_url,
                                  collected_at = now\<rparr>)))"

section \<open>Reference notions and examples for the properties\<close>






text \<open>An element with a text, displayed and enabled, without attributes or children.\<close>

definition text_element :: "ustr \<Rightarrow> element" where
  "text_element t = Element (Inr t) (Inr True) (Inr True) (\<lambda>a. Inr None) (\<lambda>loc. Inr [])"

text \<open>A page with a title and a body text, and the elements \<open>els\<close> tells for each locator.\<close>

definition example_page :: "ustr \<Rightarrow> ustr \<Rightarrow> (locator \<Rightarrow> element list) \<Rightarrow> driver" where
  "example_page t body els =
     \<lparr>title = Inr t,
      page_elements = (\<lambda>loc. if loc = TAG_NAME ''body'' then Inr [text_element body] else Inr (els loc)),
      document_title = Inr t\<rparr>"

text \<open>A library for the examples: \<open>lower\<close> on the ASCII letters, and a regex engine that
  finds nothing and substitutes nothing.\<close>

definition example_lib :: pylib where
  "example_lib =
     \<lparr>lower = map (\<lambda>c. if 65 \<le> c \<and> c \<le> 90 then c + 32 else c),
      re_sub = (\<lambda>pat repl ic s. s),
      re_findall = (\<lambda>pat s. []),
      re_search = (\<lambda>pat s. None)\<rparr>"

text \<open>A product tile with a text, and the elements \<open>els\<close> tells for each locator; a link.\<close>

definition example_tile :: "ustr \<Rightarrow> (locator \<Rightarrow> element list) \<Rightarrow> element" where
  "example_tile t els =
     Element (Inr t) (Inr True) (Inr True) (\<lambda>a. Inr None) (\<lambda>loc. Inr (els loc))"

definition link_element :: "ustr \<Rightarrow> element" where
  "link_element href =
     Element (Inr []) (Inr True) (Inr True)
       (\<lambda>a. if a = ''href'' then Inr (Some href) else Inr None) (\<lambda>loc. Inr [])"

text \<open>A Wildberries page with a heading and a price, and an Ozon tile with a link, a title
  and a price.\<close>

definition wb_example_page :: driver where
  "wb_example_page =
     example_page (ascii ''Smart TV 32'') (ascii ''Smart TV 32 in the catalogue'')
       (\<lambda>loc. if loc = CSS_SELECTOR ''h1'' then [text_element (ascii ''Smart TV 32'')]
              else if loc = CSS_SELECTOR ''.final-price''
                then [text_element (ascii ''12 990 '' @ [8381])]
              else [])"

definition ozon_example_tile :: element where
  "ozon_example_tile =
     example_tile (ascii ''Smart TV 32 with voice control'')
       (\<lambda>loc. if loc = CSS_SELECTOR ''a[href*='/product/']''
                then [link_element (ascii ''https://www.ozon.ru/product/smart-tv-1955609657/'')]
              else if loc = CSS_SELECTOR ''span[class*='tsBody']''
                then [text_element (ascii ''Smart TV 32 with voice control'')]
              else if loc = CSS_SELECTOR ''span[class*='price']''
                then [text_element (ascii ''12 990 '' @ [8381])]
              else [])"

text \<open>The example library with a search that answers the first run of digits of the text.\<close>

definition digits_lib :: pylib where
  "digits_lib = example_lib\<lparr>re_search := (\<lambda>pat s. search_digits s)\<rparr>"

section \<open>Properties of the price normalizer\<close>

lemma py_float_raises_ValueError: "py_float s = Inl e \<Longrightarrow> e = ValueError"
  by (auto simp: py_float_def Let_def split: list.splits if_splits)

lemma extract_price_try_raises: "extract_price_try text = Inl e \<Longrightarrow> e = ValueError"
  by (auto simp: extract_price_try_def Let_def split: if_splits sum.splits
      dest: py_float_raises_ValueError)

lemma extract_price_from_text_returns: "\<exists>r. extract_price_from_text text = Inr r"
proof (cases "extract_price_try text")
  case (Inl e)
  then have "e = ValueError" by (rule extract_price_try_raises)
  with Inl show ?thesis by (simp add: extract_price_from_text_def)
next
  case (Inr r)
  then show ?thesis by (simp add: extract_price_from_text_def)
qed

lemma extract_price_from_text_band:
  "extract_price_from_text text = Inr (Some v) \<Longrightarrow> 10 \<le> v \<and> v \<le> 1000000"
  by (auto simp: extract_price_from_text_def extract_price_try_def Let_def
      split: sum.splits if_splits)

lemma extract_price_from_text_nonzero:
  "extract_price_from_text text = Inr (Some v) \<Longrightarrow> v \<noteq> 0"
  using extract_price_from_text_band [of "text" v] by auto

text \<open>What reaches \<open>float\<close> holds digits, dots and whitespace other than U+0020 only.\<close>

lemma clean_price_text_chars:
  "c \<in> set (clean_price_text text) \<Longrightarrow> is_digit c \<or> c = 46 \<or> (is_space c \<and> c \<noteq> 32)"
  by (auto simp: clean_price_text_def py_replace_def split: if_splits)

lemmas price_eval = extract_price_from_text_def extract_price_try_def clean_price_text_def
  py_float_def py_strip_def py_replace_def is_digit_def is_space_def digits_val_def ascii_def Let_def

text \<open>
  C9. \<open>extract_price_from_text\<close> returns for every text, never with an exception; a price
  it returns lies between 10 and 1000000; and when \<open>float\<close> fails on the cleaned text, or
  gives a value outside that band, it returns \<open>None\<close>.
\<close>

theorem extract_price_from_text_total_band:
  "(\<exists>r. extract_price_from_text t = Inr r) \<and>
   (\<forall>v. extract_price_from_text t = Inr (Some v) \<longrightarrow> 10 \<le> v \<and> v \<le> 1000000) \<and>
   (\<forall>e. py_float (clean_price_text t) = Inl e \<longrightarrow> extract_price_from_text t = Inr None) \<and>
   (\<forall>v. py_float (clean_price_text t) = Inr v \<and> \<not> (10 \<le> v \<and> v \<le> 1000000) \<longrightarrow>
        extract_price_from_text t = Inr None)"
proof -
  have returns: "\<exists>r. extract_price_from_text t = Inr r"
    by (rule extract_price_from_text_returns)
  have band: "10 \<le> v \<and> v \<le> 1000000" if "extract_price_from_text t = Inr (Some v)" for v
    using that by (rule extract_price_from_text_band)
  have failure: "extract_price_from_text t = Inr None"
    if "py_float (clean_price_text t) = Inl e" for e
  proof -
    from that have "e = ValueError" by (rule py_float_raises_ValueError)
    with that show ?thesis
      by (simp add: extract_price_from_text_def extract_price_try_def Let_def)
  qed
  have outside: "extract_price_from_text t = Inr None"
    if "py_float (clean_price_text t) = Inr v \<and> \<not> (10 \<le> v \<and> v \<le> 1000000)" for v
    using that by (auto simp: extract_price_from_text_def extract_price_try_def Let_def)
  from returns band failure outside show ?thesis by blast
qed

text \<open>
  On \<open>1 234,56\<close> and a rouble sign the price is 1234.56, inside the band; on \<open>5\<close> and a rouble
  sign the value 5 is below the band; on \<open>1.234,56\<close> the cleaned text has two dots and
  \<open>float\<close> fails.
\<close>

theorem extract_price_from_text_total_band_witness:
  "extract_price_from_text (ascii ''1 234,56 '' @ [8381]) = Inr (Some (30864 / 25)) \<and>
   (10::rat) \<le> 30864 / 25 \<and> (30864 / 25 :: rat) \<le> 1000000 \<and>
   py_float (clean_price_text (ascii ''5 '' @ [8381])) = Inr 5 \<and>
   extract_price_from_text (ascii ''5 '' @ [8381]) = Inr None \<and>
   py_float (clean_price_text (ascii ''1.234,56'')) = Inl ValueError \<and>
   extract_price_from_text (ascii ''1.234,56'') = Inr None"
proof -
  have a: "extract_price_from_text (ascii ''1 234,56 '' @ [8381]) = Inr (Some (30864 / 25))"
    by (simp add: price_eval)
  have b: "py_float (clean_price_text (ascii ''5 '' @ [8381])) = Inr 5"
    by (simp add: price_eval)
  have c: "py_float (clean_price_text (ascii ''1.234,56'')) = Inl ValueError"
    by (simp add: price_eval)
  from extract_price_from_text_total_band [of "ascii ''1 234,56 '' @ [8381]"] a
  have "(10::rat) \<le> 30864 / 25 \<and> (30864 / 25 :: rat) \<le> 1000000" by blast
  moreover from extract_price_from_text_total_band [of "ascii ''5 '' @ [8381]"] b
  have "extract_price_from_text (ascii ''5 '' @ [8381]) = Inr None" by auto
  moreover from extract_price_from_text_total_band [of "ascii ''1.234,56''"] c
  have "extract_price_from_text (ascii ''1.234,56'') = Inr None" by blast
  ultimately show ?thesis using a b c by blast
qed

text \<open>
  What the normalizer does on the texts it was written for. Stripping and the character
  class leave the digits, commas and dots of a text whose only whitespace is U+0020.
\<close>

lemma filter_dropWhile_irrelevant:
  "(\<And>c. Q c \<Longrightarrow> \<not> P c) \<Longrightarrow> filter P (dropWhile Q s) = filter P s"
  by (induction s) auto

lemma filter_py_strip:
  assumes "\<And>c. is_space c \<Longrightarrow> \<not> P c"
  shows "filter P (py_strip s) = filter P s"
proof -
  have "filter P (py_strip s) = rev (filter P (dropWhile is_space (rev (dropWhile is_space s))))"
    by (simp add: py_strip_def rev_filter)
  also have "\<dots> = rev (filter P (rev (dropWhile is_space s)))"
    using assms by (simp add: filter_dropWhile_irrelevant)
  also have "\<dots> = filter P (dropWhile is_space s)" by (simp add: rev_filter)
  also have "\<dots> = filter P s" using assms by (simp add: filter_dropWhile_irrelevant)
  finally show ?thesis .
qed

lemma filter_twice:
  "(\<And>c. c \<in> set xs \<Longrightarrow> (P c \<and> Q c) = R c) \<Longrightarrow> filter P (filter Q xs) = filter R xs"
  by (induction xs) auto

lemma py_replace_delete: "py_replace a [] s = filter (\<lambda>c. c \<noteq> a) s"
  by (induction s) (auto simp: py_replace_def)

lemma py_replace_single: "py_replace a [b] s = map (\<lambda>c. if c = a then b else c) s"
  by (induction s) (auto simp: py_replace_def)

lemma clean_price_text_ascii_spaces:
  assumes "\<forall>c \<in> set t. is_space c \<longrightarrow> c = 32"
  shows "clean_price_text t =
     map (\<lambda>c. if c = 44 then 46 else c) (filter (\<lambda>c. is_digit c \<or> c = 44 \<or> c = 46) t)"
proof -
  have sub: "c \<in> set t" if "c \<in> set (py_strip t)" for c
  proof -
    from that have "c \<in> set (dropWhile is_space (rev (dropWhile is_space t)))"
      by (simp add: py_strip_def)
    then have "c \<in> set (rev (dropWhile is_space t))" by (rule set_dropWhileD)
    then have "c \<in> set (dropWhile is_space t)" by simp
    then show ?thesis by (rule set_dropWhileD)
  qed
  have "filter (\<lambda>c. c \<noteq> 32) (filter (\<lambda>c. is_digit c \<or> is_space c \<or> c = 44 \<or> c = 46) (py_strip t))
      = filter (\<lambda>c. is_digit c \<or> c = 44 \<or> c = 46) (py_strip t)"
  proof (rule filter_twice)
    fix c assume "c \<in> set (py_strip t)"
    then have "c \<in> set t" by (rule sub)
    with assms have "is_space c \<longrightarrow> c = 32" by auto
    then show "(c \<noteq> 32 \<and> (is_digit c \<or> is_space c \<or> c = 44 \<or> c = 46)) =
        (is_digit c \<or> c = 44 \<or> c = 46)"
      by (auto simp: is_digit_def)
  qed
  also have "\<dots> = filter (\<lambda>c. is_digit c \<or> c = 44 \<or> c = 46) t"
    by (rule filter_py_strip) (auto simp: is_space_def is_digit_def)
  finally show ?thesis
    by (simp add: clean_price_text_def py_replace_delete py_replace_single)
qed

lemma py_strip_no_space:
  "s \<noteq> [] \<Longrightarrow> \<not> is_space (hd s) \<Longrightarrow> \<not> is_space (last s) \<Longrightarrow> py_strip s = s"
proof -
  assume a: "s \<noteq> []" "\<not> is_space (hd s)" "\<not> is_space (last s)"
  then have "dropWhile is_space s = s" by (cases s) auto
  moreover from a have "dropWhile is_space (rev s) = rev s"
    by (cases "rev s") (auto simp: last_rev [symmetric] hd_rev)
  ultimately show ?thesis by (simp add: py_strip_def)
qed

lemma digit_not_space: "is_digit c \<Longrightarrow> \<not> is_space c"
  by (auto simp: is_digit_def is_space_def)

lemma py_float_decimal:
  assumes "list_all is_digit ip" "list_all is_digit fp" "ip \<noteq> []"
  shows "py_float (ip @ 46 # fp) = Inr (of_nat (digits_val ip) + of_nat (digits_val fp) / 10 ^ length fp)"
proof -
  let ?s = "ip @ 46 # fp"
  have nd: "\<not> is_digit 46" by (simp add: is_digit_def)
  have ns: "\<not> is_space 46" by (simp add: is_space_def)
  from assms have h: "\<not> is_space (hd ?s)"
    by (cases ip) (auto simp: digit_not_space)
  from assms have l: "\<not> is_space (last ?s)"
    using ns by (cases fp rule: rev_cases) (auto simp: digit_not_space)
  from h l have st: "py_strip ?s = ?s" by (intro py_strip_no_space) auto
  from assms(1) nd have tw: "takeWhile is_digit ?s = ip"
    by (simp add: takeWhile_append2 list_all_iff)
  from assms(1) nd have dw: "dropWhile is_digit ?s = 46 # fp"
    by (simp add: dropWhile_append2 list_all_iff)
  from assms show ?thesis by (simp add: py_float_def st tw dw)
qed

lemma py_float_integer:
  assumes "list_all is_digit ip" "ip \<noteq> []"
  shows "py_float ip = Inr (of_nat (digits_val ip))"
proof -
  from assms have "\<not> is_space (hd ip)" "\<not> is_space (last ip)"
    by (auto simp: list_all_iff digit_not_space)
  with assms(2) have st: "py_strip ip = ip" by (intro py_strip_no_space)
  from assms(1) have tw: "takeWhile is_digit ip = ip" and dw: "dropWhile is_digit ip = []"
    by (auto simp: list_all_iff)
  from assms(2) show ?thesis by (simp add: py_float_def st tw dw)
qed

text \<open>
  A text whose only whitespace is U+0020 and whose digits, commas and dots, read in order,
  are a run of digits, or a run of digits, one comma or dot and a run of digits: the price
  is the value of that numeral when it lies in the band, and \<open>None\<close> when it does not.
\<close>

lemma extract_price_from_text_integer:
  assumes "\<forall>c \<in> set t. is_space c \<longrightarrow> c = 32"
    and "filter (\<lambda>c. is_digit c \<or> c = 44 \<or> c = 46) t = ip" "list_all is_digit ip" "ip \<noteq> []"
  shows "extract_price_from_text t =
     Inr (if 10 \<le> (of_nat (digits_val ip) :: rat) \<and> (of_nat (digits_val ip) :: rat) \<le> 1000000
          then Some (of_nat (digits_val ip)) else None)"
proof -
  from assms(3) have "map (\<lambda>c. if c = 44 then 46 else c) ip = ip"
    by (induction ip) (auto simp: is_digit_def)
  with assms have c: "clean_price_text t = ip"
    by (simp add: clean_price_text_ascii_spaces)
  from assms(2,4) have "t \<noteq> []" by auto
  with c assms(3,4) show ?thesis
    by (simp add: extract_price_from_text_def extract_price_try_def py_float_integer)
qed

lemma extract_price_from_text_decimal:
  assumes "\<forall>c \<in> set t. is_space c \<longrightarrow> c = 32"
    and "filter (\<lambda>c. is_digit c \<or> c = 44 \<or> c = 46) t = ip @ m # fp"
    and "m = 44 \<or> m = 46" "list_all is_digit ip" "list_all is_digit fp" "ip \<noteq> []"
  shows "extract_price_from_text t =
     Inr (let v = of_nat (digits_val ip) + of_nat (digits_val fp) / 10 ^ length fp in
          if 10 \<le> v \<and> v \<le> 1000000 then Some v else None)"
proof -
  have dm: "map (\<lambda>c. if c = 44 then 46 else c) ds = ds" if "list_all is_digit ds" for ds :: ustr
    using that by (induction ds) (auto simp: is_digit_def)
  from assms(3) have "map (\<lambda>c. if c = 44 then 46 else c) (ip @ m # fp) = ip @ 46 # fp"
    using dm [OF assms(4)] dm [OF assms(5)] by auto
  with assms(1,2) have c: "clean_price_text t = ip @ 46 # fp"
    by (simp add: clean_price_text_ascii_spaces)
  from assms(2) have "t \<noteq> []" by auto
  with c assms(4-6) show ?thesis
    by (simp add: extract_price_from_text_def extract_price_try_def py_float_decimal Let_def)
qed

text \<open>
  C3 at the input \<open>1\<close>, U+202F, \<open>234\<close>, a space and the rouble sign, a price whose thousands
  are set off by a narrow no-break space, the separator the scrapers' own price patterns
  name: the character class keeps it as whitespace, \<open>replace(' ', '')\<close> leaves it in,
  \<open>float\<close> fails and the result is \<open>None\<close>, not 1234. With U+0020 in its place the result
  is 1234, as \<open>extract_price_from_text_integer\<close> says of every such text.
\<close>

theorem extract_price_from_text_narrow_space:
  "extract_price_from_text (ascii ''1'' @ [8239] @ ascii ''234 '' @ [8381]) = Inr None \<and>
   extract_price_from_text (ascii ''1 234 '' @ [8381]) = Inr (Some 1234)"
  by (simp add: price_eval)

section \<open>Properties of the JSON store\<close>





















section \<open>Properties of the block detector\<close>

lemma indicator_loop_iff:
  "indicator_loop body_text page_title inds \<longleftrightarrow>
     (\<exists>indicator \<in> set inds. sublist indicator body_text \<or> sublist indicator page_title)"
  by (induction inds) auto

lemma is_blocked_try_failure: "is_blocked_try lib drv = Inl e \<Longrightarrow> \<not> is_blocked lib drv"
  by (simp add: is_blocked_def)

text \<open>
  C4. \<open>is_blocked\<close> is true exactly when the title, the body element and its text can all
  be read and some phrase of the denylist occurs in the lower-cased body text or the
  lower-cased title. When one of the reads raises, the result is \<open>False\<close>; the function
  returns a truth value in every case. A blocked page gives no record. The phrases
  \<open>captcha\<close> and \<open>checking your browser\<close> are on the list.
\<close>

theorem is_blocked_denylist:
  "(is_blocked lib drv \<longleftrightarrow>
      (\<exists>t body bt. title drv = Inr t \<and>
         find_element (page_elements drv) (TAG_NAME ''body'') = Inr body \<and>
         elem_text body = Inr bt \<and>
         (\<exists>indicator \<in> set block_indicators.
            sublist indicator (lower lib bt) \<or> sublist indicator (lower lib t)))) \<and>
   (\<forall>e. is_blocked_try lib drv = Inl e \<longrightarrow> is_blocked lib drv = False) \<and>
   (is_blocked lib drv \<longrightarrow> collect_product_data lib now (Loaded drv) art = None) \<and>
   ascii ''captcha'' \<in> set block_indicators \<and>
   ascii ''checking your browser'' \<in> set block_indicators"
proof -
  have iff: "is_blocked lib drv \<longleftrightarrow>
      (\<exists>t body bt. title drv = Inr t \<and>
         find_element (page_elements drv) (TAG_NAME ''body'') = Inr body \<and>
         elem_text body = Inr bt \<and>
         (\<exists>indicator \<in> set block_indicators.
            sublist indicator (lower lib bt) \<or> sublist indicator (lower lib t)))"
    by (auto simp: is_blocked_def is_blocked_try_def Let_def indicator_loop_iff
        split: sum.splits)
  have fail: "is_blocked lib drv = False" if "is_blocked_try lib drv = Inl e" for e
    using that by (simp add: is_blocked_def)
  have flow: "collect_product_data lib now (Loaded drv) art = None" if "is_blocked lib drv"
    using that by (simp add: collect_product_data_def)
  have phrases: "ascii ''captcha'' \<in> set block_indicators \<and>
     ascii ''checking your browser'' \<in> set block_indicators"
    by (simp add: block_indicators_def)
  from iff fail flow phrases show ?thesis by blast
qed

lemmas page_eval = example_page_def text_element_def example_lib_def find_element_def
  ascii_def Let_def

text \<open>
  A page whose body says \<open>Please solve the CAPTCHA\<close> is blocked and gives no record; a
  page whose title cannot be read is not blocked.
\<close>

theorem is_blocked_denylist_witness:
  "is_blocked example_lib
     (example_page (ascii ''Shop'') (ascii ''Please solve the CAPTCHA'') (\<lambda>loc. [])) \<and>
   collect_product_data example_lib (ascii ''2024-05-01T10:00:00'')
     (Loaded (example_page (ascii ''Shop'') (ascii ''Please solve the CAPTCHA'') (\<lambda>loc. [])))
     (IdStr (ascii ''358384386'')) = None \<and>
   is_blocked_try example_lib
     ((example_page (ascii ''Shop'') (ascii ''Please solve the CAPTCHA'') (\<lambda>loc. []))
        \<lparr>title := Inl WebDriverException\<rparr>) = Inl WebDriverException \<and>
   is_blocked example_lib
     ((example_page (ascii ''Shop'') (ascii ''Please solve the CAPTCHA'') (\<lambda>loc. []))
        \<lparr>title := Inl WebDriverException\<rparr>) = False"
proof -
  let ?page = "example_page (ascii ''Shop'') (ascii ''Please solve the CAPTCHA'') (\<lambda>loc. [])"
  let ?broken = "?page\<lparr>title := Inl WebDriverException\<rparr>"
  have b: "is_blocked example_lib ?page"
    by (simp add: is_blocked_def is_blocked_try_def page_eval block_indicators_def sublist_code)
  from is_blocked_denylist
    [where lib = example_lib and drv = ?page and now = "ascii ''2024-05-01T10:00:00''"
       and art = "IdStr (ascii ''358384386'')"] b
  have n: "collect_product_data example_lib (ascii ''2024-05-01T10:00:00'') (Loaded ?page)
     (IdStr (ascii ''358384386'')) = None" by blast
  have t: "is_blocked_try example_lib ?broken = Inl WebDriverException"
    by (simp add: is_blocked_try_def page_eval)
  from is_blocked_denylist [where lib = example_lib and drv = ?broken] t
  have f: "is_blocked example_lib ?broken = False" by blast
  from b n t f show ?thesis by blast
qed

section \<open>Properties of the availability extractor\<close>



lemma stock_texts_distinct: "distinct [out_of_stock, in_stock, unknown_stock]"
  by (simp add: out_of_stock_def in_stock_def unknown_stock_def ascii_def)




section \<open>Properties of the rating and review extractors\<close>

text \<open>
  On Wildberries a rating that is returned lies between 0 and 5.
\<close>

lemma rating_from_sources_range:
  "rating_from_sources sources = Inr (Some r) \<Longrightarrow> 0 \<le> r \<and> r \<le> 5"
  by (induction sources rule: rating_from_sources.induct)
     (auto split: if_splits option.splits sum.splits)

lemma wb_rating_loop_range: "wb_rating_loop drv sels = Some r \<Longrightarrow> 0 \<le> r \<and> r \<le> 5"
  by (induction sels) (auto split: sum.splits option.splits dest: rating_from_sources_range)

lemma wb_extract_rating_range: "wb_extract_rating drv = Some r \<Longrightarrow> 0 \<le> r \<and> r \<le> 5"
  unfolding wb_extract_rating_def by (rule wb_rating_loop_range)

lemmas extract_eval = page_eval example_tile_def py_strip_def py_replace_def py_float_def
  is_digit_def is_space_def digits_val_def search_digits_def rating_sources_def

text \<open>
  C5 at an Ozon tile whose rating element reads \<open>10,5\<close>: the Ozon extractor, which has no
  range check, returns 10.5, a value above 5. The Wildberries extractor on the same text
  passes the candidate over and returns nothing.
\<close>

theorem ozon_rating_out_of_range:
  "ozon_extract_rating (example_tile []
      (\<lambda>loc. if loc = CSS_SELECTOR ''span[class*='rating']'' then [text_element (ascii ''10,5'')] else []))
     = Some (21 / 2) \<and>
   \<not> ((21 / 2 :: rat) \<le> 5) \<and>
   wb_extract_rating (example_page [] []
      (\<lambda>loc. if loc = CSS_SELECTOR ''.product-rating'' then [text_element (ascii ''10,5'')] else []))
     = None"
  by (simp add: ozon_extract_rating_def ozon_rating_selectors_def wb_extract_rating_def
      rating_selectors_def extract_eval)

text \<open>
  C8 at the input \<open>1 234\<close> followed by the Russian word for reviews: the Ozon extractor
  looks for digits in the text as it is and returns 1, neither 1234 nor the default 0.
  The Wildberries extractor takes the spaces out first and returns 1234.
\<close>

theorem ozon_reviews_spaced_thousands:
  "ozon_extract_reviews_count (example_tile []
      (\<lambda>loc. if loc = CSS_SELECTOR ''span[class*='review']''
             then [text_element (ascii ''1 234 '' @ [1086, 1090, 1079, 1099, 1074, 1072])] else []))
     = 1 \<and>
   wb_extract_reviews_count (example_page [] []
      (\<lambda>loc. if loc = CSS_SELECTOR ''.comments-count''
             then [text_element (ascii ''1 234 '' @ [1086, 1090, 1079, 1099, 1074, 1072])] else []))
     = 1234"
  by (simp add: ozon_extract_reviews_count_def ozon_reviews_selectors_def
      wb_extract_reviews_count_def reviews_selectors_def extract_eval)

section \<open>Properties of the assemblers\<close>

text \<open>
  Every price an extractor accepts lies in its band: 10 to 1000000 on Wildberries, 1000 to
  100000 on Ozon. An Ozon name is longer than 10 characters.
\<close>

lemma price_from_elements_band:
  "price_from_elements els = Inr (Some p) \<Longrightarrow> 10 \<le> p \<and> p \<le> 1000000"
  by (induction els)
     (auto split: sum.splits option.splits if_splits dest: extract_price_from_text_band)

lemma price_from_selectors_band:
  "price_from_selectors drv sels = Some p \<Longrightarrow> 10 \<le> p \<and> p \<le> 1000000"
  by (induction sels)
     (auto split: sum.splits option.splits dest: price_from_elements_band)

lemma price_from_rouble_elements_band:
  "price_from_rouble_elements els = Inr (Some p) \<Longrightarrow> 10 \<le> p \<and> p \<le> 1000000"
  by (induction els)
     (auto split: sum.splits option.splits if_splits dest: extract_price_from_text_band)

lemma price_from_rouble_band:
  "price_from_rouble drv = Some p \<Longrightarrow> 10 \<le> p \<and> p \<le> 1000000"
  by (auto simp: price_from_rouble_def split: sum.splits option.splits
      dest: price_from_rouble_elements_band)

lemma price_from_matches_band:
  "price_from_matches pat ms = Inr (Some p) \<Longrightarrow> 10 \<le> p \<and> p \<le> 1000000"
  by (induction ms) (auto simp: Let_def split: sum.splits if_splits)

lemma price_from_patterns_band:
  "price_from_patterns lib content pats = Inr (Some p) \<Longrightarrow> 10 \<le> p \<and> p \<le> 1000000"
  by (induction pats)
     (auto split: sum.splits option.splits dest: price_from_matches_band)

lemma price_from_scripts_band:
  "price_from_scripts lib art scripts = Inr (Some p) \<Longrightarrow> 10 \<le> p \<and> p \<le> 1000000"
  by (induction scripts)
     (auto simp: Let_def split: sum.splits option.splits if_splits
      dest: price_from_patterns_band)

lemma extract_price_from_scripts_band:
  "extract_price_from_scripts lib drv art = Some p \<Longrightarrow> 10 \<le> p \<and> p \<le> 1000000"
  by (auto simp: extract_price_from_scripts_def split: sum.splits option.splits
      dest: price_from_scripts_band)

lemma extract_product_price_band:
  "extract_product_price lib drv art = Some p \<Longrightarrow> 10 \<le> p \<and> p \<le> 1000000"
  by (auto simp: extract_product_price_def split: option.splits if_splits
      dest: price_from_selectors_band price_from_rouble_band extract_price_from_scripts_band)

lemma ozon_price_from_elements_band:
  "ozon_price_from_elements els = Inr (Some p) \<Longrightarrow> 1000 \<le> p \<and> p \<le> 100000"
  by (induction els) (auto simp: Let_def split: sum.splits if_splits)

lemma ozon_price_from_selectors_band:
  "ozon_price_from_selectors tile sels = Some p \<Longrightarrow> 1000 \<le> p \<and> p \<le> 100000"
  by (induction sels)
     (auto split: sum.splits option.splits dest: ozon_price_from_elements_band)

lemma ozon_price_from_matches_band:
  "ozon_price_from_matches ms = Some p \<Longrightarrow> 1000 \<le> p \<and> p \<le> 100000"
  by (induction ms) (auto simp: Let_def split: if_splits)

lemma ozon_price_from_patterns_band:
  "ozon_price_from_patterns lib t pats = Some p \<Longrightarrow> 1000 \<le> p \<and> p \<le> 100000"
  by (induction pats) (auto split: option.splits dest: ozon_price_from_matches_band)

lemma extract_accurate_price_band:
  "extract_accurate_price lib tile = Some p \<Longrightarrow> 1000 \<le> p \<and> p \<le> 100000"
  by (auto simp: extract_accurate_price_def split: option.splits sum.splits
      dest: ozon_price_from_selectors_band ozon_price_from_patterns_band)

lemma title_from_elements_long:
  "title_from_elements els = Inr (Some t) \<Longrightarrow> length t > 10"
  by (induction els) (auto simp: Let_def split: sum.splits if_splits)

lemma title_from_selectors_long:
  "title_from_selectors tile sels = Some t \<Longrightarrow> length t > 10"
  by (induction sels) (auto split: sum.splits option.splits dest: title_from_elements_long)

lemma ozon_extract_product_name_long:
  "ozon_extract_product_name tile = Some t \<Longrightarrow> length t > 10"
  by (auto simp: ozon_extract_product_name_def Let_def split: option.splits sum.splits if_splits
      dest: title_from_selectors_long)

text \<open>
  What a returned record says about the steps of its assembler.
\<close>

lemma ozon_assembled:
  assumes "extract_product_info_immediately lib now tile = Some r"
  shows "\<exists>u a nm p. link_loop tile None link_selectors = Some u \<and> u \<noteq> [] \<and>
     extract_article_from_url lib u = a \<and> a \<noteq> [] \<and> article r = IdStr a \<and>
     ozon_extract_product_name tile = Some nm \<and> nm \<noteq> [] \<and> name r = nm \<and>
     extract_accurate_price lib tile = Some p \<and> price r = of_nat p \<and>
     url r = u \<and> marketplace r = ascii ''Ozon''"
  using assms
  by (auto simp: extract_product_info_immediately_def Let_def split: option.splits if_splits)

lemma wb_assembled:
  assumes "collect_product_data lib now session art = Some r"
  shows "\<exists>drv nm p. session = Loaded drv \<and> \<not> is_blocked lib drv \<and>
     wb_extract_product_name lib drv = Some nm \<and> nm \<noteq> [] \<and> name r = nm \<and>
     extract_product_price lib drv art = Some p \<and> p \<noteq> 0 \<and> price r = p \<and>
     article r = art \<and> availability r = Some (extract_availability drv p) \<and>
     marketplace r = ascii ''Wildberries''"
  using assms
  by (auto simp: collect_product_data_def split: page_load.splits option.splits if_splits)


lemmas wb_eval = collect_product_data_def wb_example_page_def is_blocked_def is_blocked_try_def
  block_indicators_def sublist_code wb_extract_product_name_def name_selectors_def
  clean_product_name_def words_to_remove_def extract_product_price_def price_selectors_def
  price_eval extract_eval py_str_def

lemmas ozon_eval = extract_product_info_immediately_def ozon_example_tile_def link_element_def
  digits_lib_def link_selectors_def extract_article_from_url_def url_patterns_def
  ozon_extract_product_name_def title_selectors_def extract_accurate_price_def
  ozon_price_selectors_def digits_and_spaces_def without_spaces_def extract_eval

text \<open>
  C2, as the code has it. A record the Ozon assembler returns has an article that is a
  non-empty string, a non-empty name and a price between 1000 and 100000; the assembler
  returns nothing when the link gives no article, when there is no name or when there is
  no price. A record the Wildberries assembler returns has a non-empty name and a price
  between 10 and 1000000, and its article is the identifier the caller asked for, as
  given; the assembler returns nothing when there is no name, an empty name or no price.
\<close>

theorem assembled_record_required_fields:
  "(\<forall>r. extract_product_info_immediately lib now tile = Some r \<longrightarrow>
        (\<exists>a. article r = IdStr a \<and> a \<noteq> []) \<and> name r \<noteq> [] \<and>
        1000 \<le> price r \<and> price r \<le> 100000) \<and>
   ((\<forall>u. link_loop tile None link_selectors = Some u \<longrightarrow> extract_article_from_url lib u = []) \<or>
    ozon_extract_product_name tile = None \<or> extract_accurate_price lib tile = None \<longrightarrow>
        extract_product_info_immediately lib now tile = None) \<and>
   (\<forall>r. collect_product_data lib now session art = Some r \<longrightarrow>
        article r = art \<and> name r \<noteq> [] \<and> 10 \<le> price r \<and> price r \<le> 1000000) \<and>
   (wb_extract_product_name lib drv = None \<or> wb_extract_product_name lib drv = Some [] \<or>
    extract_product_price lib drv art = None \<longrightarrow>
        collect_product_data lib now (Loaded drv) art = None)"
proof -
  have ozon: "(\<exists>a. article r = IdStr a \<and> a \<noteq> []) \<and> name r \<noteq> [] \<and>
        1000 \<le> price r \<and> price r \<le> 100000"
    if "extract_product_info_immediately lib now tile = Some r" for r
  proof -
    from ozon_assembled [OF that] obtain a nm p where
      a: "article r = IdStr a" "a \<noteq> []" and nm: "name r = nm" "nm \<noteq> []"
      and p: "extract_accurate_price lib tile = Some p" "price r = of_nat p"
      by blast
    from p(1) have "1000 \<le> p \<and> p \<le> 100000" by (rule extract_accurate_price_band)
    then have "(1000::rat) \<le> of_nat p \<and> (of_nat p :: rat) \<le> 100000"
      by (metis of_nat_le_iff of_nat_numeral)
    with a nm p(2) show ?thesis by simp
  qed
  have ozon_discard: "extract_product_info_immediately lib now tile = None"
    if "(\<forall>u. link_loop tile None link_selectors = Some u \<longrightarrow> extract_article_from_url lib u = []) \<or>
        ozon_extract_product_name tile = None \<or> extract_accurate_price lib tile = None"
    using that
    by (auto simp: extract_product_info_immediately_def Let_def split: option.splits)
  have wb: "article r = art \<and> name r \<noteq> [] \<and> 10 \<le> price r \<and> price r \<le> 1000000"
    if "collect_product_data lib now session art = Some r" for r
  proof -
    from wb_assembled [OF that] obtain d nm p where
      "article r = art" "name r = nm" "nm \<noteq> []"
      and p: "extract_product_price lib d art = Some p" "price r = p"
      by blast
    moreover from p(1) have "10 \<le> p \<and> p \<le> 1000000" by (rule extract_product_price_band)
    ultimately show ?thesis by simp
  qed
  have wb_discard: "collect_product_data lib now (Loaded drv) art = None"
    if "wb_extract_product_name lib drv = None \<or> wb_extract_product_name lib drv = Some [] \<or>
        extract_product_price lib drv art = None"
    using that by (auto simp: collect_product_data_def split: option.splits)
  from ozon ozon_discard wb wb_discard show ?thesis by blast
qed

text \<open>
  The Wildberries assembler with the empty identifier, on a page with a heading and a
  price: a record is returned, and its article is empty.
\<close>

theorem wb_empty_article_counterexample:
  "map_option (\<lambda>r. (article r, name r, price r))
     (collect_product_data example_lib (ascii ''2024-05-01T10:00:00'') (Loaded wb_example_page)
        (IdStr []))
   = Some (IdStr [], ascii ''Smart TV 32'', 12990)"
  by (simp add: wb_eval)

text \<open>
  An Ozon tile with a link, a title and a price gives a record with the article of the
  link; the same tile with a search that finds no article gives nothing. The Wildberries
  page with a heading and a price gives a record; an empty page gives nothing.
\<close>

theorem assembled_record_required_fields_witness:
  "map_option (\<lambda>r. (article r, name r, price r))
     (extract_product_info_immediately digits_lib (ascii ''2024-05-01T10:00:00'') ozon_example_tile)
     = Some (IdStr (ascii ''1955609657''), ascii ''Smart TV 32 with voice control'', 12990) \<and>
   extract_product_info_immediately example_lib (ascii ''2024-05-01T10:00:00'') ozon_example_tile
     = None \<and>
   map_option (\<lambda>r. (article r, name r, price r))
     (collect_product_data example_lib (ascii ''2024-05-01T10:00:00'') (Loaded wb_example_page)
        (IdStr (ascii ''358384386'')))
     = Some (IdStr (ascii ''358384386''), ascii ''Smart TV 32'', 12990) \<and>
   collect_product_data example_lib (ascii ''2024-05-01T10:00:00'')
     (Loaded (example_page [] [] (\<lambda>loc. []))) (IdStr (ascii ''358384386'')) = None"
proof -
  let ?now = "ascii ''2024-05-01T10:00:00''"
  let ?art = "IdStr (ascii ''358384386'')"
  let ?empty = "example_page [] [] (\<lambda>loc. [])"
  have o: "map_option (\<lambda>r. (article r, name r, price r))
     (extract_product_info_immediately digits_lib ?now ozon_example_tile)
     = Some (IdStr (ascii ''1955609657''), ascii ''Smart TV 32 with voice control'', 12990)"
    by (simp add: ozon_eval)
  then obtain r where r: "extract_product_info_immediately digits_lib ?now ozon_example_tile = Some r"
    by auto
  from assembled_record_required_fields
    [where lib = digits_lib and now = ?now and tile = ozon_example_tile] r
  have "name r \<noteq> []" by blast
  have nolink: "\<forall>u. link_loop ozon_example_tile None link_selectors = Some u \<longrightarrow>
     extract_article_from_url example_lib u = []"
    by (simp add: extract_article_from_url_def url_patterns_def example_lib_def)
  from assembled_record_required_fields
    [where lib = example_lib and now = ?now and tile = ozon_example_tile] nolink
  have od: "extract_product_info_immediately example_lib ?now ozon_example_tile = None" by blast
  have w: "map_option (\<lambda>r. (article r, name r, price r))
     (collect_product_data example_lib ?now (Loaded wb_example_page) ?art)
     = Some (?art, ascii ''Smart TV 32'', 12990)"
    by (simp add: wb_eval)
  have noname: "wb_extract_product_name example_lib ?empty = None"
    by (simp add: wb_extract_product_name_def name_selectors_def name_from_title_def page_eval)
  from assembled_record_required_fields
    [where lib = example_lib and now = ?now and drv = ?empty and art = ?art] noname
  have wd: "collect_product_data example_lib ?now (Loaded ?empty) ?art = None" by blast
  from o od w wd show ?thesis by blast
qed

text \<open>
  C10. A record of the Wildberries assembler has the in-stock or the out-of-stock text as
  its availability and never the unknown text: its price is at least 10, as is every
  price that \<open>extract_product_price\<close>, \<open>extract_price_from_text\<close> and
  \<open>extract_price_from_scripts\<close> return, so the branch for the price zero is not taken.
\<close>

theorem wb_availability_never_unknown:
  "(\<forall>r. collect_product_data lib now session art = Some r \<longrightarrow>
        (availability r = Some in_stock \<or> availability r = Some out_of_stock) \<and>
        availability r \<noteq> Some unknown_stock \<and> 10 \<le> price r) \<and>
   (\<forall>p. extract_product_price lib drv art = Some p \<longrightarrow> 10 \<le> p) \<and>
   (\<forall>v. extract_price_from_text t = Inr (Some v) \<longrightarrow> 10 \<le> v) \<and>
   (\<forall>p. extract_price_from_scripts lib drv art = Some p \<longrightarrow> 10 \<le> p)"
proof -
  have rec: "(availability r = Some in_stock \<or> availability r = Some out_of_stock) \<and>
        availability r \<noteq> Some unknown_stock \<and> 10 \<le> price r"
    if "collect_product_data lib now session art = Some r" for r
  proof -
    from wb_assembled [OF that] obtain d p where
      p: "extract_product_price lib d art = Some p" "p \<noteq> 0" "price r = p"
      and a: "availability r = Some (extract_availability d p)"
      by blast
    from p(2) have "extract_availability d p = in_stock \<or> extract_availability d p = out_of_stock"
      by (simp add: extract_availability_def)
    moreover have "in_stock \<noteq> unknown_stock" "out_of_stock \<noteq> unknown_stock"
      using stock_texts_distinct by auto
    moreover from p(1) have "10 \<le> p" using extract_product_price_band by blast
    ultimately show ?thesis using a p(3) by auto
  qed
  have a: "10 \<le> p" if "extract_product_price lib drv art = Some p" for p
    using that extract_product_price_band by blast
  have b: "10 \<le> v" if "extract_price_from_text t = Inr (Some v)" for v
    using that extract_price_from_text_band by blast
  have c: "10 \<le> p" if "extract_price_from_scripts lib drv art = Some p" for p
    using that extract_price_from_scripts_band by blast
  from rec a b c show ?thesis by blast
qed

text \<open>
  The page with a heading and a price: the record is in stock at 12990.
\<close>

theorem wb_availability_never_unknown_witness:
  "map_option (\<lambda>r. (availability r, price r))
     (collect_product_data example_lib (ascii ''2024-05-01T10:00:00'') (Loaded wb_example_page)
        (IdStr (ascii ''358384386'')))
     = Some (Some in_stock, 12990) \<and>
   in_stock \<noteq> unknown_stock \<and> (10::rat) \<le> 12990 \<and>
   extract_product_price example_lib wb_example_page (IdStr (ascii ''358384386'')) = Some 12990 \<and>
   extract_price_from_text (ascii ''12 990 '' @ [8381]) = Inr (Some 12990)"
proof -
  let ?now = "ascii ''2024-05-01T10:00:00''"
  let ?art = "IdStr (ascii ''358384386'')"
  have w: "map_option (\<lambda>r. (availability r, price r))
     (collect_product_data example_lib ?now (Loaded wb_example_page) ?art)
     = Some (Some in_stock, 12990)"
    by (simp add: wb_eval extract_availability_def out_of_stock_selectors_def
        in_stock_selectors_def)
  then obtain r where r: "collect_product_data example_lib ?now (Loaded wb_example_page) ?art = Some r"
    and f: "availability r = Some in_stock" "price r = 12990"
    by auto
  from wb_availability_never_unknown
    [where lib = example_lib and now = ?now and session = "Loaded wb_example_page" and art = ?art] r
  have "availability r \<noteq> Some unknown_stock \<and> 10 \<le> price r" by blast
  with f have d: "in_stock \<noteq> unknown_stock \<and> (10::rat) \<le> 12990" by simp
  have p: "extract_product_price example_lib wb_example_page ?art = Some 12990"
    by (simp add: wb_eval)
  have t: "extract_price_from_text (ascii ''12 990 '' @ [8381]) = Inr (Some 12990)"
    by (simp add: price_eval)
  from w d p t show ?thesis by blast
qed

end
